theory Spec2Isabelle
  imports Complex_Main
begin

section \<open>The debate judge: data model\<close>

text \<open>
  The development embeds \<^verbatim>\<open>backend_ml/ml_judge.py\<close> (class \<^verbatim>\<open>DebateJudge\<close>), the
  dynamics analysis of \<^verbatim>\<open>backend_ml/advanced_ai.py\<close> and the finalize route of
  \<^verbatim>\<open>backend_ml/main.py\<close>.

  Conventions of the embedding.
  \<^item> Python floats are read as real numbers: the arithmetic is exact, and
    \<^verbatim>\<open>round(x, 1)\<close> is rounding to the nearest tenth, a tie going to the even tenth.
    A value that is a tie in exact arithmetic may reach \<^verbatim>\<open>round\<close> a rounding error away
    from it in the floating-point computation, and then go to either tenth.
  \<^item> A Python \<^verbatim>\<open>str\<close> is a \<^typ>\<open>string\<close> whose characters are code points below 256.
  \<^item> An exception is a value of \<open>py_exn\<close>; a call that may raise returns
    \<open>py_exn + 'a\<close>, the exception on the left.
  \<^item> The external models (sentiment classifier, sentence embedder, emotion classifier)
    are fields of the records \<open>judge\<close> and \<open>analyzer\<close>: functions that return a value
    or raise. A \<open>judge\<close> stands for a \<^verbatim>\<open>DebateJudge\<close> whose \<^verbatim>\<open>init_models\<close> has
    completed, so the guard \<^verbatim>\<open>if not self._initialized\<close> is passed without effect.
\<close>

datatype py_exn =
    AttributeError string
  | KeyError string
  | IndexError string
  | ModelError string

record sub_score =
  score :: real
  rating :: string

record score_set =
  sentiment :: sub_score
  clarity :: sub_score
  vocab_richness :: sub_score
  avg_word_len :: sub_score
  length_words :: nat

record 'v judge =
  sentiment_analyzer :: "string \<Rightarrow> py_exn + (string \<times> real)"
  embedder_encode :: "string \<Rightarrow> py_exn + 'v"
  cos_sim :: "'v \<Rightarrow> 'v \<Rightarrow> real"

section \<open>Python's string operations\<close>

text \<open>\<^verbatim>\<open>str.isspace\<close> on one character, for the code points below 256.\<close>

definition isspace :: "char \<Rightarrow> bool" where
  "isspace c \<longleftrightarrow> c \<in> set [CHR 0x09, CHR 0x0A, CHR 0x0B, CHR 0x0C, CHR 0x0D,
     CHR 0x1C, CHR 0x1D, CHR 0x1E, CHR 0x1F, CHR 0x20, CHR 0x85, CHR 0xA0]"

text \<open>\<^verbatim>\<open>s.strip()\<close>: leading and trailing whitespace removed.\<close>

definition strip :: "string \<Rightarrow> string" where
  "strip s = rev (dropWhile isspace (rev (dropWhile isspace s)))"

text \<open>\<^verbatim>\<open>s.split()\<close>: the maximal runs of non-whitespace characters, in order.\<close>

fun split_run :: "string \<Rightarrow> string \<Rightarrow> string list" where
  "split_run cur [] = (if cur = [] then [] else [cur])"
| "split_run cur (c # cs) =
     (if isspace c then (if cur = [] then split_run [] cs else cur # split_run [] cs)
      else split_run (cur @ [c]) cs)"

definition split :: "string \<Rightarrow> string list" where
  "split s = split_run [] s"

text \<open>\<^verbatim>\<open>s.split(sep)\<close> for a separator of one character: empty pieces are kept.\<close>

fun split_sep :: "char \<Rightarrow> string \<Rightarrow> string \<Rightarrow> string list" where
  "split_sep sep cur [] = [cur]"
| "split_sep sep cur (c # cs) =
     (if c = sep then cur # split_sep sep [] cs else split_sep sep (cur @ [c]) cs)"

definition split_on :: "char \<Rightarrow> string \<Rightarrow> string list" where
  "split_on sep s = split_sep sep [] s"

text \<open>\<^verbatim>\<open>s.replace(a, b)\<close> for single characters.\<close>

definition replace :: "char \<Rightarrow> char \<Rightarrow> string \<Rightarrow> string" where
  "replace a b s = map (\<lambda>c. if c = a then b else c) s"

text \<open>
  \<^verbatim>\<open>s.count(sub)\<close>: the number of non-overlapping occurrences of \<open>sub\<close>, found from the
  left. After a match the scan resumes behind it: the counter \<open>k\<close> is the number of
  characters still to skip.
\<close>

fun count_scan :: "string \<Rightarrow> nat \<Rightarrow> string \<Rightarrow> nat" where
  "count_scan sub k [] = 0"
| "count_scan sub k (c # cs) =
     (if 0 < k then count_scan sub (k - 1) cs
      else if take (length sub) (c # cs) = sub then Suc (count_scan sub (length sub - 1) cs)
      else count_scan sub 0 cs)"

definition count_str :: "string \<Rightarrow> string \<Rightarrow> nat" where
  "count_str s sub = (if sub = [] then Suc (length s) else count_scan sub 0 s)"

text \<open>
  \<^verbatim>\<open>s.lower()\<close> and \<^verbatim>\<open>s.upper()\<close>. Below 256 the cased letters are A-Z and a-z and the
  Latin-1 letters at 0xC0-0xDE and 0xE0-0xFE (0xD7 and 0xF7 are signs); the three
  characters whose upper case lies outside this range (0xB5, 0xDF, 0xFF) are left as
  they are, which never yields an ASCII letter.
\<close>

definition lower_char :: "char \<Rightarrow> char" where
  "lower_char c =
     (let n = (of_char c :: nat)
      in if (65 \<le> n \<and> n \<le> 90) \<or> (192 \<le> n \<and> n \<le> 222 \<and> n \<noteq> 215)
         then char_of (n + 32) else c)"

definition upper_char :: "char \<Rightarrow> char" where
  "upper_char c =
     (let n = (of_char c :: nat)
      in if (97 \<le> n \<and> n \<le> 122) \<or> (224 \<le> n \<and> n \<le> 254 \<and> n \<noteq> 247)
         then char_of (n - 32) else c)"

definition lower :: "string \<Rightarrow> string" where
  "lower s = map lower_char s"

definition upper :: "string \<Rightarrow> string" where
  "upper s = map upper_char s"

text \<open>\<^verbatim>\<open>sep.join(xs)\<close>.\<close>

fun join :: "string \<Rightarrow> string list \<Rightarrow> string" where
  "join sep [] = []"
| "join sep [x] = x"
| "join sep (x # y # ys) = x @ sep @ join sep (y # ys)"

section \<open>Numbers\<close>

text \<open>\<^verbatim>\<open>round(x, 1)\<close>: to the nearest tenth, a tie to the even one.\<close>

definition py_round1 :: "real \<Rightarrow> real" where
  "py_round1 x =
     (let y = x * 10; f = \<lfloor>y\<rfloor>; d = y - of_int f
      in of_int (if d < 1/2 then f else if 1/2 < d then f + 1
                 else if even f then f else f + 1) / 10)"

text \<open>\<^verbatim>\<open>np.mean(xs)\<close> of a non-empty list.\<close>

definition mean :: "real list \<Rightarrow> real" where
  "mean xs = sum_list xs / of_nat (length xs)"

section \<open>The argument scorer\<close>

text \<open>\<^verbatim>\<open>DebateJudge._rating\<close>.\<close>

definition rating_of :: "real \<Rightarrow> string" where
  "rating_of v =
     (if 85 \<le> v then ''Excellent''
      else if 70 \<le> v then ''Good''
      else if 50 \<le> v then ''Fair''
      else ''Poor'')"

definition zero_scores :: score_set where
  "zero_scores =
     \<lparr>sentiment = \<lparr>score = 0, rating = ''Poor''\<rparr>,
      clarity = \<lparr>score = 0, rating = ''Poor''\<rparr>,
      vocab_richness = \<lparr>score = 0, rating = ''Poor''\<rparr>,
      avg_word_len = \<lparr>score = 0, rating = ''Poor''\<rparr>,
      length_words = 0\<rparr>"

text \<open>
  The sentiment step: the classifier is called on \<^verbatim>\<open>text[:512]\<close> inside
  \<^verbatim>\<open>try ... except Exception\<close>, and its score is signed by its label.
\<close>

definition sentiment_score :: "'v judge \<Rightarrow> string \<Rightarrow> real" where
  "sentiment_score j text =
     (case sentiment_analyzer j (take 512 text) of
        Inl e \<Rightarrow> 0
      | Inr (label, s) \<Rightarrow> if upper label = ''POSITIVE'' then s else - s)"

definition filler :: "string list" where
  "filler = [''um'', ''uh'', ''like'', ''you know'', ''basically'', ''so'']"

definition filler_count :: "string \<Rightarrow> nat" where
  "filler_count text = sum_list (map (count_str (lower text)) filler)"

definition sentences :: "string \<Rightarrow> string list" where
  "sentences text =
     filter (\<lambda>s. strip s \<noteq> [])
       (split_on (CHR ''.'') (replace (CHR ''!'') (CHR ''.'') (replace (CHR ''?'') (CHR ''.'') text)))"

definition avg_wps :: "string \<Rightarrow> real" where
  "avg_wps text = of_nat (length (split text)) / of_nat (max 1 (length (sentences text)))"

text \<open>
  The raw clarity, in exact arithmetic. The source computes it in double precision, so a
  value that is exactly halfway between two tenths here can be a rounding error off that
  point there; the statements about the clarity score leave the direction of the final
  rounding open at such values.
\<close>

definition clarity_raw :: "string \<Rightarrow> real" where
  "clarity_raw text =
     (let r = 1 - min 1 (of_nat (filler_count text) / of_nat (max 1 (length (split text))))
      in if 30 < avg_wps text then r * (6 / 10) else r)"

definition vocab_richness_raw :: "string \<Rightarrow> real" where
  "vocab_richness_raw text =
     of_nat (length (remdups (map lower (split text)))) / of_nat (max 1 (length (split text)))"

definition avg_word_len_raw :: "string \<Rightarrow> real" where
  "avg_word_len_raw text =
     (if split text = [] then 0 else mean (map (\<lambda>w. of_nat (length w)) (split text)))"

text \<open>\<^verbatim>\<open>DebateJudge.score_argument\<close>.\<close>

definition score_argument :: "'v judge \<Rightarrow> string \<Rightarrow> score_set" where
  "score_argument j text =
     (if strip text = [] then zero_scores
      else
        let sentiment_pct = py_round1 ((sentiment_score j text + 1) * 50);
            clarity_pct = py_round1 (clarity_raw text * 100);
            vocab_pct = py_round1 (vocab_richness_raw text * 100);
            avg_word_len_score = min 100 (py_round1 (avg_word_len_raw text * 10))
        in \<lparr>sentiment = \<lparr>score = sentiment_pct, rating = rating_of sentiment_pct\<rparr>,
            clarity = \<lparr>score = clarity_pct, rating = rating_of clarity_pct\<rparr>,
            vocab_richness = \<lparr>score = vocab_pct, rating = rating_of vocab_pct\<rparr>,
            avg_word_len = \<lparr>score = avg_word_len_score, rating = rating_of avg_word_len_score\<rparr>,
            length_words = length (split text)\<rparr>)"

section \<open>The coherence estimator\<close>

text \<open>
  \<^verbatim>\<open>DebateJudge.compare_arguments\<close>. The two calls of the embedder stand outside any
  \<^verbatim>\<open>try\<close>: what the embedder raises leaves the function.
\<close>

definition compare_arguments :: "'v judge \<Rightarrow> string list \<Rightarrow> string list \<Rightarrow> py_exn + real" where
  "compare_arguments j args_a args_b =
     (let text_a = join '' '' args_a; text_b = join '' '' args_b
      in if strip text_a = [] \<or> strip text_b = [] then Inr 0
         else case embedder_encode j text_a of
                Inl e \<Rightarrow> Inl e
              | Inr emb_a \<Rightarrow>
                  (case embedder_encode j text_b of
                     Inl e \<Rightarrow> Inl e
                   | Inr emb_b \<Rightarrow> Inr (py_round1 (cos_sim j emb_a emb_b * 100))))"

section \<open>The aggregator\<close>

datatype metric = Sentiment | Clarity | Vocab_richness | Avg_word_len

text \<open>\<^verbatim>\<open>s[m]\<close> for a score set \<open>s\<close> and a metric \<open>m\<close>.\<close>

fun metric_of :: "score_set \<Rightarrow> metric \<Rightarrow> sub_score" where
  "metric_of s Sentiment = sentiment s"
| "metric_of s Clarity = clarity s"
| "metric_of s Vocab_richness = vocab_richness s"
| "metric_of s Avg_word_len = avg_word_len s"

record verdict =
  scores_A :: "metric \<Rightarrow> sub_score"
  scores_B :: "metric \<Rightarrow> sub_score"
  coherence :: sub_score
  totals_A :: real
  totals_B :: real
  winner :: string

definition avg_scores :: "score_set list \<Rightarrow> metric \<Rightarrow> real" where
  "avg_scores scores m =
     (if scores = [] then 0 else mean (map (\<lambda>s. score (metric_of s m)) scores))"

definition total_score :: "real \<Rightarrow> (metric \<Rightarrow> real) \<Rightarrow> real" where
  "total_score coh avg =
     3 / 10 * avg Clarity + 3 / 10 * avg Sentiment + 2 / 10 * avg Vocab_richness
       + 1 / 10 * avg Avg_word_len + 1 / 10 * coh"

text \<open>\<^verbatim>\<open>DebateJudge.evaluate\<close>.\<close>

definition evaluate :: "'v judge \<Rightarrow> string list \<Rightarrow> string list \<Rightarrow> py_exn + verdict" where
  "evaluate j args_a args_b =
     (let scores_a = map (score_argument j) args_a;
          scores_b = map (score_argument j) args_b;
          avg_a = avg_scores scores_a;
          avg_b = avg_scores scores_b
      in case compare_arguments j args_a args_b of
           Inl e \<Rightarrow> Inl e
         | Inr coh \<Rightarrow>
             let total_a = py_round1 (total_score coh avg_a);
                 total_b = py_round1 (total_score coh avg_b)
             in Inr \<lparr>scores_A = (\<lambda>m. \<lparr>score = py_round1 (avg_a m), rating = rating_of (avg_a m)\<rparr>),
                     scores_B = (\<lambda>m. \<lparr>score = py_round1 (avg_b m), rating = rating_of (avg_b m)\<rparr>),
                     coherence = \<lparr>score = coh, rating = rating_of coh\<rparr>,
                     totals_A = total_a,
                     totals_B = total_b,
                     winner = (if total_b \<le> total_a then ''A'' else ''B'')\<rparr>)"

section \<open>The debate dynamics analyzer\<close>

record 'v analyzer =
  emotion_classifier :: "(string \<Rightarrow> py_exn + (string \<times> real) list) option"
  sentence_model :: "(string list \<Rightarrow> py_exn + 'v list) option"
  cosine :: "'v \<Rightarrow> 'v \<Rightarrow> real"

record emotion_result =
  emotion :: string
  confidence :: real
  emotions :: "(string \<times> real) list"

definition neutral :: emotion_result where
  "neutral = \<lparr>emotion = ''neutral'', confidence = 1 / 2, emotions = []\<rparr>"

text \<open>
  \<^verbatim>\<open>analyze_argument_emotion\<close>: the whole body is inside \<^verbatim>\<open>try ... except Exception\<close>,
  so a raising classifier and the \<^verbatim>\<open>IndexError\<close> of \<^verbatim>\<open>emotions[0]\<close> on an empty
  result both give the neutral default. \<^verbatim>\<open>sorted(..., reverse=True)\<close> is stable.
\<close>

definition analyze_argument_emotion :: "'v analyzer \<Rightarrow> string \<Rightarrow> emotion_result" where
  "analyze_argument_emotion an text =
     (case emotion_classifier an of
        None \<Rightarrow> neutral
      | Some clf \<Rightarrow>
          (case clf text of
             Inl e \<Rightarrow> neutral
           | Inr result \<Rightarrow>
               (case sort_key (\<lambda>(l, s). - s) result of
                  [] \<Rightarrow> neutral
                | best # rest \<Rightarrow>
                    \<lparr>emotion = fst best, confidence = snd best, emotions = take 3 (best # rest)\<rparr>)))"

text \<open>
  \<^verbatim>\<open>calculate_argument_similarity\<close>, also wholly inside \<^verbatim>\<open>try ... except Exception\<close>:
  without a sentence model, when the model raises and when it returns fewer than two
  embeddings the result is \<open>0.0\<close>.
\<close>

definition calculate_argument_similarity :: "'v analyzer \<Rightarrow> string \<Rightarrow> string \<Rightarrow> real" where
  "calculate_argument_similarity an text1 text2 =
     (case sentence_model an of
        None \<Rightarrow> 0
      | Some encode \<Rightarrow>
          (case encode [text1, text2] of
             Inl e \<Rightarrow> 0
           | Inr embeddings \<Rightarrow>
               (if length embeddings < 2 then 0
                else cosine an (embeddings ! 0) (embeddings ! 1))))"

text \<open>A request's argument is a dictionary; \<^verbatim>\<open>d[k]\<close> raises \<^verbatim>\<open>KeyError\<close> on a missing key.\<close>

type_synonym dict = "(string \<times> string) list"

definition getitem :: "dict \<Rightarrow> string \<Rightarrow> py_exn + string" where
  "getitem d k = (case map_of d k of None \<Rightarrow> Inl (KeyError k) | Some v \<Rightarrow> Inr v)"

text \<open>
  The loop of \<^verbatim>\<open>analyze_debate_dynamics\<close> over \<^verbatim>\<open>enumerate(arguments)\<close>. \<open>prev\<close> is
  \<^verbatim>\<open>arguments[i-1]\<close>, absent when \<^verbatim>\<open>i = 0\<close>; the accumulators are the lists
  \<^verbatim>\<open>emotions\<close> and \<^verbatim>\<open>similarities\<close>.
\<close>

fun dynamics_loop ::
  "'v analyzer \<Rightarrow> dict option \<Rightarrow> dict list \<Rightarrow> string list \<Rightarrow> real list
    \<Rightarrow> py_exn + (string list \<times> real list)" where
  "dynamics_loop an prev [] es ss = Inr (es, ss)"
| "dynamics_loop an prev (arg # rest) es ss =
     (case getitem arg ''content'' of
        Inl e \<Rightarrow> Inl e
      | Inr content \<Rightarrow>
          let es' = es @ [emotion (analyze_argument_emotion an content)]
          in (case prev of
                None \<Rightarrow> dynamics_loop an (Some arg) rest es' ss
              | Some p \<Rightarrow>
                  (case getitem p ''content'' of
                     Inl e \<Rightarrow> Inl e
                   | Inr earlier \<Rightarrow>
                       dynamics_loop an (Some arg) rest es'
                         (ss @ [calculate_argument_similarity an earlier content]))))"

text \<open>
  \<^verbatim>\<open>Counter(emotions)\<close> as an association list in order of first occurrence, and
  \<^verbatim>\<open>most_common(3)\<close>: the three largest counts, equal counts in that order.
\<close>

fun bump :: "string \<Rightarrow> (string \<times> nat) list \<Rightarrow> (string \<times> nat) list" where
  "bump x [] = [(x, 1)]"
| "bump x ((k, c) # kcs) = (if k = x then (k, Suc c) # kcs else (k, c) # bump x kcs)"

definition counter :: "string list \<Rightarrow> (string \<times> nat) list" where
  "counter xs = fold bump xs []"

definition most_common :: "nat \<Rightarrow> (string \<times> nat) list \<Rightarrow> (string \<times> nat) list" where
  "most_common n kcs = take n (sort_key (\<lambda>(k, c). - int c) kcs)"

record dynamics =
  total_arguments :: nat
  emotional_diversity :: real
  dominant_emotions :: "(string \<times> nat) list"
  average_similarity :: real
  debate_coherence :: real
  emotional_progression :: "string list"

text \<open>
  \<^verbatim>\<open>analyze_debate_dynamics\<close>. The empty dictionary returned for an empty argument list
  is \<open>None\<close>.
\<close>

definition analyze_debate_dynamics :: "'v analyzer \<Rightarrow> dict list \<Rightarrow> py_exn + dynamics option" where
  "analyze_debate_dynamics an arguments =
     (if arguments = [] then Inr None
      else case dynamics_loop an None arguments [] [] of
             Inl e \<Rightarrow> Inl e
           | Inr (es, similarities) \<Rightarrow>
               let emotion_counts = counter es;
                   diversity = (if es = [] then 0
                                else of_nat (length emotion_counts) / of_nat (length es));
                   avg_similarity = (if similarities = [] then 0 else mean similarities)
               in Inr (Some \<lparr>total_arguments = length arguments,
                              emotional_diversity = diversity,
                              dominant_emotions = most_common 3 emotion_counts,
                              average_similarity = avg_similarity,
                              debate_coherence = 1 - avg_similarity,
                              emotional_progression = es\<rparr>))"

section \<open>The finalize route\<close>

text \<open>
  The names a \<^verbatim>\<open>DebateJudge\<close> instance answers to: the methods of the class and the
  fields its methods set (besides the names every Python object inherits, all of the form
  \<^verbatim>\<open>__name__\<close>). \<^verbatim>\<open>judge.name\<close> for any other name raises \<^verbatim>\<open>AttributeError\<close>, whose
  message quotes the class and the name.
\<close>

definition DebateJudge_attributes :: "string list" where
  "DebateJudge_attributes =
     [''__init__'', ''init_models'', ''_rating'', ''score_argument'', ''compare_arguments'',
      ''evaluate'', ''device'', ''_init_lock'', ''_initialized'', ''sentiment_analyzer'',
      ''embedder'']"

definition quoted :: "string \<Rightarrow> string" where
  "quoted s = [CHR 0x27] @ s @ [CHR 0x27]"

definition getattr_DebateJudge :: "string \<Rightarrow> py_exn + string" where
  "getattr_DebateJudge name =
     (if name \<in> set DebateJudge_attributes then Inr name
      else Inl (AttributeError
                  (quoted ''DebateJudge'' @ '' object has no attribute '' @ quoted name)))"

text \<open>\<^verbatim>\<open>str(e)\<close>: the message; for a \<^verbatim>\<open>KeyError\<close> the key in quotes.\<close>

fun str_exn :: "py_exn \<Rightarrow> string" where
  "str_exn (AttributeError msg) = msg"
| "str_exn (KeyError k) = quoted k"
| "str_exn (IndexError msg) = msg"
| "str_exn (ModelError msg) = msg"

record finalize_result =
  verdict_of :: verdict
  debate_dynamics :: "dynamics option option"

datatype response = ErrorResponse string | Result finalize_result

text \<open>
  \<^verbatim>\<open>finalize_debate\<close> of \<^verbatim>\<open>main.py\<close>, the whole body inside
  \<^verbatim>\<open>try ... except Exception\<close>. It asks the judge for its attribute
  \<^verbatim>\<open>finalize_debate\<close> and calls it with the request's arguments; \<open>call\<close> is what
  calling an attribute the judge has would return. The key \<^verbatim>\<open>debate_dynamics\<close> is set
  when \<^verbatim>\<open>advanced_ai.sentence_model\<close> is not \<^verbatim>\<open>None\<close>.
\<close>

definition finalize_debate ::
  "(string \<Rightarrow> dict list \<Rightarrow> py_exn + verdict) \<Rightarrow> 'v analyzer \<Rightarrow> dict list \<Rightarrow> response" where
  "finalize_debate call an arguments =
     (case getattr_DebateJudge ''finalize_debate'' of
        Inl e \<Rightarrow> ErrorResponse (str_exn e)
      | Inr method \<Rightarrow>
          (case call method arguments of
             Inl e \<Rightarrow> ErrorResponse (str_exn e)
           | Inr result \<Rightarrow>
               (if sentence_model an \<noteq> None
                then (case analyze_debate_dynamics an arguments of
                        Inl e \<Rightarrow> ErrorResponse (str_exn e)
                      | Inr dyn \<Rightarrow> Result \<lparr>verdict_of = result, debate_dynamics = Some dyn\<rparr>)
                else Result \<lparr>verdict_of = result, debate_dynamics = None\<rparr>)))"

section \<open>The average of adjacent similarities, as specified\<close>

text \<open>
  The texts of a sequence of arguments, and the similarities of its adjacent pairs
  \<open>(i-1, i)\<close> in order: what the specification of the dynamics analyzer averages.
\<close>

definition contents_of :: "dict list \<Rightarrow> string list" where
  "contents_of arguments = map (\<lambda>a. the (map_of a ''content'')) arguments"

definition adjacent_similarities :: "'v analyzer \<Rightarrow> string list \<Rightarrow> real list" where
  "adjacent_similarities an contents =
     map (\<lambda>(x, y). calculate_argument_similarity an x y) (zip contents (tl contents))"

section \<open>Stand-ins for the external models\<close>

text \<open>A judge whose classifier and embedder both raise when called.\<close>

definition judge_down :: "unit judge" where
  "judge_down =
     \<lparr>sentiment_analyzer = (\<lambda>t. Inl (ModelError ''classifier unavailable'')),
      embedder_encode = (\<lambda>t. Inl (ModelError ''embedder unavailable'')),
      cos_sim = (\<lambda>a b. 0)\<rparr>"

text \<open>
  A judge whose embedder places any two documents at cosine similarity \<open>c\<close>, and whose
  classifier answers \<^verbatim>\<open>POSITIVE\<close> with score \<open>0.5\<close> for the text \<^verbatim>\<open>"a"\<close> and with \<open>0.502\<close>
  for any other.
\<close>

definition judge_stub :: "real \<Rightarrow> unit judge" where
  "judge_stub c =
     \<lparr>sentiment_analyzer =
        (\<lambda>t. if t = ''a'' then Inr (''POSITIVE'', 1 / 2) else Inr (''POSITIVE'', 502 / 1000)),
      embedder_encode = (\<lambda>t. Inr ()),
      cos_sim = (\<lambda>a b. c)\<rparr>"

text \<open>
  A judge whose classifier answers \<^verbatim>\<open>positive\<close> (in lower case) with score \<open>0.9\<close> for
  the text \<^verbatim>\<open>"great"\<close> and \<^verbatim>\<open>NEGATIVE\<close> with score \<open>0.8\<close> for any other.
\<close>

definition judge_labels :: "unit judge" where
  "judge_labels =
     \<lparr>sentiment_analyzer =
        (\<lambda>t. if t = ''great'' then Inr (''positive'', 9 / 10) else Inr (''NEGATIVE'', 8 / 10)),
      embedder_encode = (\<lambda>t. Inr ()),
      cos_sim = (\<lambda>a b. 1)\<rparr>"

text \<open>An analyzer with a sentence model that embeds a text as its length.\<close>

definition analyzer_stub :: "nat analyzer" where
  "analyzer_stub =
     \<lparr>emotion_classifier = Some (\<lambda>t. Inr [(''joy'', 9 / 10), (''anger'', 1 / 10)]),
      sentence_model = Some (\<lambda>ts. Inr (map length ts)),
      cosine = (\<lambda>a b. if a = b then 1 else 1 / 2)\<rparr>"

section \<open>Evaluation rules\<close>

lemmas string_defs = isspace_def strip_def split_def split_on_def replace_def count_str_def
  lower_def lower_char_def upper_def upper_char_def

lemmas scorer_defs = score_argument_def sentiment_score_def filler_def filler_count_def
  sentences_def avg_wps_def clarity_raw_def vocab_richness_raw_def avg_word_len_raw_def
  mean_def py_round1_def rating_of_def zero_scores_def

lemmas agg_defs = evaluate_def compare_arguments_def avg_scores_def total_score_def

section \<open>Properties of the argument scorer\<close>

text \<open>A text strips to the empty string exactly when all its characters are whitespace.\<close>

lemma strip_Nil_iff: "strip s = [] \<longleftrightarrow> (\<forall>c \<in> set s. isspace c)"
proof
  assume "strip s = []"
  then have all: "\<forall>c \<in> set (dropWhile isspace s). isspace c"
    by (simp add: strip_def dropWhile_eq_Nil_conv)
  have "dropWhile isspace s = []"
  proof (rule ccontr)
    assume ne: "dropWhile isspace s \<noteq> []"
    then have "\<not> isspace (hd (dropWhile isspace s))" by (rule hd_dropWhile)
    moreover have "hd (dropWhile isspace s) \<in> set (dropWhile isspace s)" using ne by simp
    ultimately show False using all by blast
  qed
  then show "\<forall>c \<in> set s. isspace c" by (simp add: dropWhile_eq_Nil_conv)
next
  assume "\<forall>c \<in> set s. isspace c"
  then have "dropWhile isspace s = []" by (simp add: dropWhile_eq_Nil_conv)
  then show "strip s = []" by (simp only: strip_def rev.simps dropWhile.simps)
qed

text \<open>
  Claim C5. For every text that is empty or consists of whitespace only,
  \<open>score_argument\<close> returns the canonical zero score set: sentiment, clarity, vocabulary
  richness and average word length all \<open>0\<close> and \<^verbatim>\<open>Poor\<close>, length \<open>0\<close>. The judge \<open>j\<close>
  is arbitrary, so the result does not depend on any answer of the external models: it
  is the same for a judge whose models raise whenever they are called.
\<close>

theorem score_argument_blank:
  "(\<forall>c \<in> set text. isspace c) \<Longrightarrow>
     score_argument j text =
       \<lparr>sentiment = \<lparr>score = 0, rating = ''Poor''\<rparr>,
        clarity = \<lparr>score = 0, rating = ''Poor''\<rparr>,
        vocab_richness = \<lparr>score = 0, rating = ''Poor''\<rparr>,
        avg_word_len = \<lparr>score = 0, rating = ''Poor''\<rparr>,
        length_words = 0\<rparr>"
  by (simp add: score_argument_def zero_scores_def strip_Nil_iff)

theorem score_argument_blank_witness:
  "score_argument judge_down [CHR '' '', CHR 0x09, CHR 0x0A] =
       \<lparr>sentiment = \<lparr>score = 0, rating = ''Poor''\<rparr>,
        clarity = \<lparr>score = 0, rating = ''Poor''\<rparr>,
        vocab_richness = \<lparr>score = 0, rating = ''Poor''\<rparr>,
        avg_word_len = \<lparr>score = 0, rating = ''Poor''\<rparr>,
        length_words = 0\<rparr> \<and>
   score_argument judge_down [] =
       \<lparr>sentiment = \<lparr>score = 0, rating = ''Poor''\<rparr>,
        clarity = \<lparr>score = 0, rating = ''Poor''\<rparr>,
        vocab_richness = \<lparr>score = 0, rating = ''Poor''\<rparr>,
        avg_word_len = \<lparr>score = 0, rating = ''Poor''\<rparr>,
        length_words = 0\<rparr>"
proof -
  have ws: "\<forall>c \<in> set [CHR '' '', CHR 0x09, CHR 0x0A]. isspace c"
    by (simp add: isspace_def)
  show ?thesis
    using ws score_argument_blank [OF ws, of judge_down] score_argument_blank [of "[]" judge_down]
    by simp
qed

text \<open>
  Claim C7, as stated: the clarity sub-score is \<open>100 * (1 - min(1, fillers / max(1,
  words)))\<close>, times \<open>0.6\<close> for a run-on text. At the text \<^verbatim>\<open>"um is it"\<close> (one filler
  in three words, one sentence of three words) that value is \<open>200/3\<close>, and the score
  returned is \<open>66.7\<close>.
\<close>

theorem clarity_unrounded_counterexample:
  "score (clarity (score_argument judge_down ''um is it'')) = 667 / 10 \<and>
   100 * (1 - min 1 (real (filler_count ''um is it'') / real (max 1 (length (split ''um is it'')))))
     = 200 / 3 \<and>
   avg_wps ''um is it'' = 3 \<and>
   score (clarity (score_argument judge_down ''um is it''))
     \<noteq> 100 * (1 - min 1 (real (filler_count ''um is it'')
                              / real (max 1 (length (split ''um is it'')))))"
  by (simp add: judge_down_def string_defs scorer_defs Let_def)

text \<open>
  The score of \<^verbatim>\<open>round(x, 1)\<close> is one of the two tenths that enclose \<open>x\<close>, and the
  nearer one unless \<open>x\<close> lies exactly halfway between them.
\<close>

lemma py_round1_cases:
  "(py_round1 x = of_int \<lfloor>x * 10\<rfloor> / 10 \<or> py_round1 x = of_int (\<lfloor>x * 10\<rfloor> + 1) / 10) \<and>
   (x * 10 - of_int \<lfloor>x * 10\<rfloor> < 1 / 2 \<longrightarrow> py_round1 x = of_int \<lfloor>x * 10\<rfloor> / 10) \<and>
   (1 / 2 < x * 10 - of_int \<lfloor>x * 10\<rfloor> \<longrightarrow> py_round1 x = of_int (\<lfloor>x * 10\<rfloor> + 1) / 10)"
  by (simp add: py_round1_def Let_def)

text \<open>The clarity sub-score of a text that is not blank, as the scorer computes it.\<close>

lemma clarity_score_round:
  "strip text \<noteq> [] \<Longrightarrow>
     score (clarity (score_argument j text)) =
       py_round1 (100 * ((1 - min 1 (real (filler_count text) / real (max 1 (length (split text)))))
         * (if 30 < real (length (split text)) / real (max 1 (length (sentences text)))
            then 6 / 10 else 1)))"
  by (simp add: score_argument_def clarity_raw_def avg_wps_def Let_def mult.commute)

text \<open>
  Claim C7, amended. For every text that is not blank, the clarity sub-score is the value
  \<open>V = 100 * (1 - min(1, fillers / max(1, words))) * p\<close> rounded to one decimal place,
  where \<open>p\<close> is \<open>0.6\<close> when the words per sentence exceed \<open>30\<close> and \<open>1\<close> otherwise:
  the score is one of the two tenths that enclose \<open>V\<close>, and the nearer one whenever \<open>V\<close>
  does not lie exactly halfway between them. Exactly halfway, which of the two is
  returned depends on the floating-point rounding of the computation and is left open. A
  blank text scores \<open>0\<close>. A single sentence of 31 one-character words scores \<open>60\<close>; the
  text \<^verbatim>\<open>"um so basically this is it"\<close> has 3 filler matches in 6 words and scores
  \<open>50\<close>.
\<close>

theorem clarity_rounded_formula:
  "(strip text \<noteq> [] \<longrightarrow>
      (let V = 100 * ((1 - min 1 (real (filler_count text) / real (max 1 (length (split text)))))
                 * (if 30 < real (length (split text)) / real (max 1 (length (sentences text)))
                    then 6 / 10 else 1));
           f = \<lfloor>V * 10\<rfloor>
       in (score (clarity (score_argument j text)) = of_int f / 10 \<or>
           score (clarity (score_argument j text)) = of_int (f + 1) / 10) \<and>
          (V * 10 - of_int f < 1 / 2 \<longrightarrow>
             score (clarity (score_argument j text)) = of_int f / 10) \<and>
          (1 / 2 < V * 10 - of_int f \<longrightarrow>
             score (clarity (score_argument j text)) = of_int (f + 1) / 10))) \<and>
   (strip text = [] \<longrightarrow> score (clarity (score_argument j text)) = 0) \<and>
   score (clarity (score_argument j
       ''a a a a a a a a a a a a a a a a a a a a a a a a a a a a a a a'')) = 60 \<and>
   filler_count ''um so basically this is it'' = 3 \<and>
   length (split ''um so basically this is it'') = 6 \<and>
   score (clarity (score_argument j ''um so basically this is it'')) = 50"
proof -
  have general: "strip text \<noteq> [] \<longrightarrow>
      (let V = 100 * ((1 - min 1 (real (filler_count text) / real (max 1 (length (split text)))))
                 * (if 30 < real (length (split text)) / real (max 1 (length (sentences text)))
                    then 6 / 10 else 1));
           f = \<lfloor>V * 10\<rfloor>
       in (score (clarity (score_argument j text)) = of_int f / 10 \<or>
           score (clarity (score_argument j text)) = of_int (f + 1) / 10) \<and>
          (V * 10 - of_int f < 1 / 2 \<longrightarrow>
             score (clarity (score_argument j text)) = of_int f / 10) \<and>
          (1 / 2 < V * 10 - of_int f \<longrightarrow>
             score (clarity (score_argument j text)) = of_int (f + 1) / 10))"
  proof
    assume ne: "strip text \<noteq> []"
    show "let V = 100 * ((1 - min 1 (real (filler_count text) / real (max 1 (length (split text)))))
                 * (if 30 < real (length (split text)) / real (max 1 (length (sentences text)))
                    then 6 / 10 else 1));
           f = \<lfloor>V * 10\<rfloor>
       in (score (clarity (score_argument j text)) = of_int f / 10 \<or>
           score (clarity (score_argument j text)) = of_int (f + 1) / 10) \<and>
          (V * 10 - of_int f < 1 / 2 \<longrightarrow>
             score (clarity (score_argument j text)) = of_int f / 10) \<and>
          (1 / 2 < V * 10 - of_int f \<longrightarrow>
             score (clarity (score_argument j text)) = of_int (f + 1) / 10)"
      unfolding Let_def clarity_score_round [OF ne] by (rule py_round1_cases)
  qed
  have blank: "strip text = [] \<longrightarrow> score (clarity (score_argument j text)) = 0"
    by (simp add: score_argument_def zero_scores_def)
  have run_on: "score (clarity (score_argument j
       ''a a a a a a a a a a a a a a a a a a a a a a a a a a a a a a a'')) = 60"
    by (simp add: string_defs scorer_defs Let_def)
  have fillers: "filler_count ''um so basically this is it'' = 3 \<and>
      length (split ''um so basically this is it'') = 6 \<and>
      score (clarity (score_argument j ''um so basically this is it'')) = 50"
    by (simp add: string_defs scorer_defs Let_def)
  from general blank run_on fillers show ?thesis by blast
qed

theorem clarity_rounded_formula_witness:
  "score (clarity (score_argument judge_down ''um is it'')) = 667 / 10 \<and>
   (score (clarity (score_argument judge_down
      ''um a a a a a a a a a a a a a a a a a a a a a a a a a a a a a a a a a a a a a a a a a a a a a a a''))
      = 587 / 10 \<or>
    score (clarity (score_argument judge_down
      ''um a a a a a a a a a a a a a a a a a a a a a a a a a a a a a a a a a a a a a a a a a a a a a a a''))
      = 588 / 10) \<and>
   score (clarity (score_argument judge_down [CHR '' ''])) = 0"
proof -
  let ?t = "''um is it''"
  let ?u = "''um a a a a a a a a a a a a a a a a a a a a a a a a a a a a a a a a a a a a a a a a a a a a a a a''"
  have ne: "strip ?t \<noteq> []" "strip ?u \<noteq> []" "strip [CHR '' ''] = []"
    by (simp_all add: string_defs)
  have t: "filler_count ?t = 1" "length (split ?t) = 3" "length (sentences ?t) = 1"
    by (simp_all add: string_defs scorer_defs)
  have u: "filler_count ?u = 1" "length (split ?u) = 48" "length (sentences ?u) = 1"
    by (simp_all add: string_defs scorer_defs)
  have "score (clarity (score_argument judge_down ?t)) = 667 / 10"
    using clarity_rounded_formula [of ?t judge_down] ne(1)
    by (simp add: t Let_def)
  moreover have "score (clarity (score_argument judge_down ?u)) = 587 / 10 \<or>
      score (clarity (score_argument judge_down ?u)) = 588 / 10"
    using clarity_rounded_formula [of ?u judge_down] ne(2)
    by (auto simp add: u Let_def)
  moreover have "score (clarity (score_argument judge_down [CHR '' ''])) = 0"
    using clarity_rounded_formula [of "[CHR '' '']" judge_down] ne(3) by blast
  ultimately show ?thesis by blast
qed

text \<open>
  Claim C8. For a text that is not blank, the sentiment step calls the classifier on
  \<^verbatim>\<open>text[:512]\<close>, at most 512 characters, and on nothing else: two judges whose
  classifiers answer alike there score the text alike. The classifier's score counts
  positively when the upper-cased label is \<^verbatim>\<open>POSITIVE\<close> and negatively otherwise. When
  the classifier raises, the raw value is \<open>0\<close>, so the sentiment sub-score is \<open>50\<close>
  (\<^verbatim>\<open>Fair\<close>), and clarity, vocabulary richness, average word length and length are what
  they are with any other judge \<open>j'\<close>: nothing is raised and nothing else is lost.
\<close>

theorem sentiment_step:
  "strip text \<noteq> [] \<Longrightarrow>
     length (take 512 text) \<le> 512 \<and>
     (sentiment_analyzer j' (take 512 text) = sentiment_analyzer j (take 512 text) \<longrightarrow>
        score_argument j' text = score_argument j text) \<and>
     (sentiment_analyzer j (take 512 text) = Inr (label, s) \<longrightarrow>
        score (sentiment (score_argument j text)) =
          py_round1 (((if upper label = ''POSITIVE'' then s else - s) + 1) * 50)) \<and>
     (sentiment_analyzer j (take 512 text) = Inl e \<longrightarrow>
        sentiment (score_argument j text) = \<lparr>score = 50, rating = ''Fair''\<rparr> \<and>
        clarity (score_argument j text) = clarity (score_argument j' text) \<and>
        vocab_richness (score_argument j text) = vocab_richness (score_argument j' text) \<and>
        avg_word_len (score_argument j text) = avg_word_len (score_argument j' text) \<and>
        length_words (score_argument j text) = length_words (score_argument j' text))"
  by (simp add: score_argument_def sentiment_score_def Let_def py_round1_def rating_of_def)

theorem sentiment_step_witness:
  "sentiment (score_argument judge_down ''fine point'') = \<lparr>score = 50, rating = ''Fair''\<rparr> \<and>
   clarity (score_argument judge_down ''fine point'')
     = clarity (score_argument judge_labels ''fine point'') \<and>
   vocab_richness (score_argument judge_down ''fine point'')
     = vocab_richness (score_argument judge_labels ''fine point'') \<and>
   avg_word_len (score_argument judge_down ''fine point'')
     = avg_word_len (score_argument judge_labels ''fine point'') \<and>
   score (sentiment (score_argument judge_labels ''great'')) = 95 \<and>
   score (sentiment (score_argument judge_labels ''awful'')) = 10"
proof -
  have ne: "strip ''fine point'' \<noteq> []" "strip ''great'' \<noteq> []" "strip ''awful'' \<noteq> []"
    by (simp_all add: string_defs)
  have down: "sentiment_analyzer judge_down (take 512 ''fine point'')
      = Inl (ModelError ''classifier unavailable'')"
    by (simp add: judge_down_def)
  have great: "sentiment_analyzer judge_labels (take 512 ''great'') = Inr (''positive'', 9 / 10)"
    and awful: "sentiment_analyzer judge_labels (take 512 ''awful'') = Inr (''NEGATIVE'', 8 / 10)"
    by (simp_all add: judge_labels_def)
  have up: "upper ''positive'' = ''POSITIVE''" "upper ''NEGATIVE'' \<noteq> ''POSITIVE''"
    by code_simp+
  from sentiment_step [OF ne(1), where j = judge_down and j' = judge_labels
      and e = "ModelError ''classifier unavailable''"] down
  have soft: "sentiment (score_argument judge_down ''fine point'')
        = \<lparr>score = 50, rating = ''Fair''\<rparr> \<and>
      clarity (score_argument judge_down ''fine point'')
        = clarity (score_argument judge_labels ''fine point'') \<and>
      vocab_richness (score_argument judge_down ''fine point'')
        = vocab_richness (score_argument judge_labels ''fine point'') \<and>
      avg_word_len (score_argument judge_down ''fine point'')
        = avg_word_len (score_argument judge_labels ''fine point'')"
    by blast
  from sentiment_step [OF ne(2), where j = judge_labels and j' = judge_down
      and e = "ModelError []" and label = "''positive''"
      and s = "9 / 10"] great up(1)
  have pos: "score (sentiment (score_argument judge_labels ''great'')) = 95"
    by (simp add: py_round1_def)
  from sentiment_step [OF ne(3), where j = judge_labels and j' = judge_down
      and e = "ModelError []" and label = "''NEGATIVE''"
      and s = "8 / 10"] awful up(2)
  have neg: "score (sentiment (score_argument judge_labels ''awful'')) = 10"
    by (simp add: py_round1_def)
  from soft pos neg show ?thesis by blast
qed

text \<open>
  In every sub-score of \<open>score_argument\<close> the rating is the bucket of the score
  reported with it.
\<close>

lemma score_argument_rating:
  "rating (metric_of (score_argument j text) m)
     = rating_of (score (metric_of (score_argument j text) m))"
  by (cases m) (simp_all add: score_argument_def zero_scores_def rating_of_def Let_def)

section \<open>Properties of the coherence estimator\<close>

text \<open>
  What holds of the estimator for blank documents: when either side's joined text is
  empty or whitespace only the result is \<open>0\<close>, whatever the embedder would do.
\<close>

lemma compare_arguments_blank:
  "strip (join '' '' args_a) = [] \<or> strip (join '' '' args_b) = [] \<Longrightarrow>
     compare_arguments j args_a args_b = Inr 0"
  by (auto simp add: compare_arguments_def Let_def)

text \<open>
  Claim C3. The coherence percentage should never be below \<open>0\<close>. The estimator returns
  the rounded \<^verbatim>\<open>sim * 100\<close> as it is: for two documents at cosine similarity \<open>-0.5\<close> it
  returns \<open>-50\<close>, and \<open>evaluate\<close> reports that value as the coherence score.
\<close>

theorem coherence_negative:
  "compare_arguments (judge_stub (- 1 / 2)) [''good''] [''bad''] = Inr (- 50) \<and>
   map_sum id (\<lambda>v. score (coherence v)) (evaluate (judge_stub (- 1 / 2)) [''good''] [''bad''])
     = Inr (- 50)"
  by (simp add: evaluate_def compare_arguments_def judge_stub_def string_defs py_round1_def
      Let_def)

text \<open>
  Claim C4. An embedder that raises when called should make the estimator return \<open>0\<close>.
  The exception leaves \<open>compare_arguments\<close> instead, and \<open>evaluate\<close> with it.
\<close>

theorem embedder_failure_propagates:
  "compare_arguments judge_down [''hello''] [''world'']
     = Inl (ModelError ''embedder unavailable'') \<and>
   evaluate judge_down [''hello''] [''world''] = Inl (ModelError ''embedder unavailable'')"
  by (simp add: evaluate_def compare_arguments_def judge_down_def string_defs Let_def)

section \<open>Properties of the aggregator\<close>












text \<open>
  Claim C10. In every sub-score reported, the rating should be the bucket of the
  reported value. For the averaged metrics \<open>evaluate\<close> reports the average rounded to
  one decimal place and rates the unrounded average. Side A's three arguments have clarity
  \<open>33.3\<close>, \<open>33.3\<close> and \<open>83.3\<close>, average \<open>49.9666...\<close>: the reported sub-score is \<open>50.0\<close>
  with rating \<^verbatim>\<open>Poor\<close>, and the bucket of \<open>50.0\<close> is \<^verbatim>\<open>Fair\<close>.
\<close>

theorem averaged_rating_mismatch:
  "map_sum id (\<lambda>v. scores_A v Clarity)
     (evaluate (judge_stub 0) [''um uh no'', ''um uh no'', ''um we do it at ten''] [])
     = Inr \<lparr>score = 50, rating = ''Poor''\<rparr> \<and>
   avg_scores (map (score_argument (judge_stub 0))
     [''um uh no'', ''um uh no'', ''um we do it at ten'']) Clarity = 1499 / 30 \<and>
   rating_of 50 = ''Fair''"
  by (simp add: agg_defs judge_stub_def string_defs scorer_defs Let_def)

text \<open>The coherence sub-score of a verdict, for its part, is rated on the value reported.\<close>

lemma coherence_rating:
  "evaluate j args_a args_b = Inr v \<Longrightarrow> rating (coherence v) = rating_of (score (coherence v))"
  by (auto simp add: evaluate_def Let_def split: sum.splits)

section \<open>Properties of the debate dynamics analyzer\<close>

lemma getitem_content:
  "map_of a ''content'' \<noteq> None \<Longrightarrow> getitem a ''content'' = Inr (the (map_of a ''content''))"
  by (auto simp add: getitem_def)

text \<open>
  The loop, entered with a previous argument \<open>p\<close>, appends to \<open>similarities\<close> the
  similarities of the adjacent pairs of \<open>p # rest\<close>, by induction on \<open>rest\<close>.
\<close>

lemma dynamics_loop_Some:
  "\<forall>a \<in> set rest. map_of a ''content'' \<noteq> None \<Longrightarrow> map_of p ''content'' \<noteq> None \<Longrightarrow>
     \<exists>es'. dynamics_loop an (Some p) rest es ss =
       Inr (es', ss @ adjacent_similarities an (contents_of (p # rest)))"
proof (induction rest arbitrary: p es ss)
  case Nil
  then show ?case by (simp add: adjacent_similarities_def contents_of_def)
next
  case (Cons arg rest)
  from Cons.prems have arg: "map_of arg ''content'' \<noteq> None"
    and rest: "\<forall>a \<in> set rest. map_of a ''content'' \<noteq> None" by simp_all
  let ?c = "the (map_of arg ''content'')"
  let ?pc = "the (map_of p ''content'')"
  let ?es = "es @ [emotion (analyze_argument_emotion an ?c)]"
  let ?ss = "ss @ [calculate_argument_similarity an ?pc ?c]"
  from Cons.IH [OF rest arg, of ?es ?ss] obtain es' where
    ih: "dynamics_loop an (Some arg) rest ?es ?ss =
           Inr (es', ?ss @ adjacent_similarities an (contents_of (arg # rest)))" by blast
  have "dynamics_loop an (Some p) (arg # rest) es ss = dynamics_loop an (Some arg) rest ?es ?ss"
    using arg Cons.prems(2) by (simp add: getitem_content Let_def)
  moreover have "?ss @ adjacent_similarities an (contents_of (arg # rest))
      = ss @ adjacent_similarities an (contents_of (p # arg # rest))"
    by (simp add: adjacent_similarities_def contents_of_def)
  ultimately show ?case using ih by simp
qed

lemma dynamics_loop_None:
  "\<forall>a \<in> set arguments. map_of a ''content'' \<noteq> None \<Longrightarrow>
     \<exists>es'. dynamics_loop an None arguments [] [] =
       Inr (es', adjacent_similarities an (contents_of arguments))"
proof (cases arguments)
  case Nil
  then show ?thesis by (simp add: adjacent_similarities_def contents_of_def)
next
  case (Cons arg rest)
  assume "\<forall>a \<in> set arguments. map_of a ''content'' \<noteq> None"
  with Cons have arg: "map_of arg ''content'' \<noteq> None"
    and rest: "\<forall>a \<in> set rest. map_of a ''content'' \<noteq> None" by simp_all
  from dynamics_loop_Some [OF rest arg] obtain es' where
    "dynamics_loop an (Some arg) rest
       ([] @ [emotion (analyze_argument_emotion an (the (map_of arg ''content'')))]) [] =
     Inr (es', [] @ adjacent_similarities an (contents_of (arg # rest)))" by blast
  then show ?thesis using Cons arg by (simp add: getitem_content Let_def)
qed

lemma length_adjacent_similarities:
  "length (adjacent_similarities an cs) = length cs - 1"
  by (simp add: adjacent_similarities_def)

text \<open>
  Claim C9. For every non-empty sequence of arguments, each carrying its text under the
  key \<^verbatim>\<open>content\<close>, the analyzer returns a result whose \<open>debate_coherence\<close> is exactly
  \<open>1 - average_similarity\<close>; \<open>average_similarity\<close> is the arithmetic mean of the
  similarities of the adjacent pairs, and \<open>0\<close> when there are fewer than two arguments.
  A debate of a single argument has \<open>debate_coherence = 1\<close>.
\<close>

theorem debate_coherence_formula:
  assumes "arguments \<noteq> []" and "\<forall>a \<in> set arguments. map_of a ''content'' \<noteq> None"
  shows "\<exists>d. analyze_debate_dynamics an arguments = Inr (Some d) \<and>
     debate_coherence d = 1 - average_similarity d \<and>
     average_similarity d =
       (if length arguments < 2 then 0
        else sum_list (adjacent_similarities an (contents_of arguments))
               / real (length arguments - 1)) \<and>
     (length arguments = 1 \<longrightarrow> debate_coherence d = 1)"
proof -
  from dynamics_loop_None [OF assms(2)] obtain es where
    loop: "dynamics_loop an None arguments [] [] =
             Inr (es, adjacent_similarities an (contents_of arguments))" by blast
  let ?sims = "adjacent_similarities an (contents_of arguments)"
  have len: "length ?sims = length arguments - 1"
    by (simp add: length_adjacent_similarities contents_of_def)
  have nil: "?sims = [] \<longleftrightarrow> length arguments < 2"
    using len assms(1)
    by (cases arguments) (auto simp add: length_0_conv [symmetric] simp del: length_0_conv)
  define d where "d = \<lparr>total_arguments = length arguments,
      emotional_diversity =
        (if es = [] then 0 else of_nat (length (counter es)) / of_nat (length es)),
      dominant_emotions = most_common 3 (counter es),
      average_similarity = (if ?sims = [] then 0 else mean ?sims),
      debate_coherence = 1 - (if ?sims = [] then 0 else mean ?sims),
      emotional_progression = es\<rparr>"
  have res: "analyze_debate_dynamics an arguments = Inr (Some d)"
    using assms(1) loop by (simp add: analyze_debate_dynamics_def Let_def d_def)
  have coh: "debate_coherence d = 1 - average_similarity d" by (simp add: d_def)
  have avg: "average_similarity d =
       (if length arguments < 2 then 0
        else sum_list ?sims / real (length arguments - 1))"
    using nil len by (simp add: d_def mean_def)
  have one: "length arguments = 1 \<longrightarrow> debate_coherence d = 1"
    using coh avg by simp
  from res coh avg one show ?thesis by blast
qed

theorem debate_coherence_formula_witness:
  "map_sum id (map_option debate_coherence)
     (analyze_debate_dynamics analyzer_stub [[(''content'', ''one'')]]) = Inr (Some 1) \<and>
   map_sum id (map_option average_similarity)
     (analyze_debate_dynamics analyzer_stub
        [[(''content'', ''one'')], [(''content'', ''two'')], [(''content'', ''three'')]])
     = Inr (Some (3 / 4)) \<and>
   map_sum id (map_option debate_coherence)
     (analyze_debate_dynamics analyzer_stub
        [[(''content'', ''one'')], [(''content'', ''two'')], [(''content'', ''three'')]])
     = Inr (Some (1 / 4))"
proof -
  have one: "map_sum id (map_option debate_coherence)
     (analyze_debate_dynamics analyzer_stub [[(''content'', ''one'')]]) = Inr (Some 1)"
    using debate_coherence_formula [of "[[(''content'', ''one'')]]" analyzer_stub]
    by auto
  let ?args = "[[(''content'', ''one'')], [(''content'', ''two'')], [(''content'', ''three'')]]"
  have sims: "adjacent_similarities analyzer_stub (contents_of ?args) = [1, 1 / 2]"
    by (simp add: adjacent_similarities_def contents_of_def calculate_argument_similarity_def
        analyzer_stub_def)
  from debate_coherence_formula [of ?args analyzer_stub] obtain d where
    "analyze_debate_dynamics analyzer_stub ?args = Inr (Some d)"
    "debate_coherence d = 1 - average_similarity d"
    "average_similarity d = sum_list (adjacent_similarities analyzer_stub (contents_of ?args)) / 2"
    by auto
  with sims have "map_sum id (map_option average_similarity)
     (analyze_debate_dynamics analyzer_stub ?args) = Inr (Some (3 / 4))"
    and "map_sum id (map_option debate_coherence)
     (analyze_debate_dynamics analyzer_stub ?args) = Inr (Some (1 / 4))"
    by simp_all
  with one show ?thesis by blast
qed

section \<open>Properties of the finalize route\<close>

text \<open>
  Claim C2. Finalizing a debate should return the verdict of the core judge, with the
  dynamics merged in when the sentence model is loaded. The route asks the judge for a
  method \<^verbatim>\<open>finalize_debate\<close>, which \<^verbatim>\<open>DebateJudge\<close> does not have (its aggregation method
  is \<^verbatim>\<open>evaluate\<close>): the lookup raises \<^verbatim>\<open>AttributeError\<close>, and for every request, every
  analyzer and whatever the judge's methods would return, the response is the error
  response with that exception's message. No verdict is ever produced.
\<close>

theorem finalize_debate_always_error:
  "finalize_debate call an arguments =
     ErrorResponse
       (quoted ''DebateJudge'' @ '' object has no attribute '' @ quoted ''finalize_debate'')"
  by (simp add: finalize_debate_def getattr_DebateJudge_def DebateJudge_attributes_def)

text \<open>
  The arguments of a finalize request carry the keys \<^verbatim>\<open>username\<close> and \<^verbatim>\<open>argumentText\<close>;
  on such arguments the dynamics analyzer raises \<^verbatim>\<open>KeyError\<close>.
\<close>

lemma analyze_debate_dynamics_request:
  "analyze_debate_dynamics an
     [[(''username'', ''alice''), (''argumentText'', ''We should act now.'')]]
     = Inl (KeyError ''content'')"
  by (simp add: analyze_debate_dynamics_def getitem_def)

end
